theory Spec2Isabelle
  imports Main "HOL-Library.Sublist"
begin

section \<open>Python values, exceptions and effects\<close>

text \<open>
  The module \<open>improver/spotdata/read_input.py\<close> is embedded function by function.
  An exception is a value: its class and its message. The classes are the ones the
  module raises (\<open>AttributeError\<close>, \<open>IOError\<close>, \<open>ValueError\<close>, \<open>TypeError\<close>,
  \<open>KeyError\<close>), the interpreter's \<open>RecursionError\<close>, and \<open>LibraryError\<close> for what
  an external library raises.
\<close>

datatype exn_kind =
  AttributeError | TypeError | IOError | ValueError | KeyError | RecursionError
  | LibraryError string

datatype exn = Exn exn_kind string

text \<open>
  The Python values the functions receive and return. \<open>'c\<close> is iris's cube, opaque
  here. A dictionary is its list of items; only string keys are kept, since every lookup
  of the module is by a string key.
\<close>

datatype 'c pyval =
  PNone
  | PBool bool
  | PInt int
  | PStr string
  | PList "'c pyval list"
  | PDict "(string \<times> 'c pyval) list"
  | PCube 'c
  | PCubeList "'c list"

text \<open>\<open>isinstance(v, dict)\<close>.\<close>

fun isinstance_dict :: "'c pyval \<Rightarrow> bool" where
  "isinstance_dict (PDict items) = True"
| "isinstance_dict v = False"

text \<open>
  What a call does to the world outside, in order: a directory walk from a root, a load
  of files by iris, the opening of a file.
\<close>

datatype 'c event =
  Walked string
  | Loaded "'c pyval" "'c pyval"
  | Opened string

definition dquote :: string where
  "dquote = [CHR 0x22]"

definition squote :: string where
  "squote = [CHR 0x27]"

section \<open>The file system and \<open>os.walk\<close>\<close>

text \<open>
  A directory holds files and directories, in the order the operating system lists them.
\<close>

datatype entry = File string | Dir string "entry list"

text \<open>\<open>os.path.join(a, b)\<close> of \<open>posixpath\<close>.\<close>

definition os_path_join :: "string \<Rightarrow> string \<Rightarrow> string" where
  "os_path_join a b =
     (if b \<noteq> [] \<and> hd b = CHR ''/'' then b
      else if a = [] \<or> last a = CHR ''/'' then a @ b
      else a @ ''/'' @ b)"

fun dirnames :: "entry list \<Rightarrow> string list" where
  "dirnames [] = []"
| "dirnames (File n # es) = dirnames es"
| "dirnames (Dir n sub # es) = n # dirnames es"

fun filenames :: "entry list \<Rightarrow> string list" where
  "filenames [] = []"
| "filenames (File n # es) = n # filenames es"
| "filenames (Dir n sub # es) = filenames es"

text \<open>
  \<open>os.walk(top)\<close>, top down: the triple of the directory itself, then the walk of each of
  its subdirectories in turn.
\<close>

fun walk :: "string \<Rightarrow> entry list \<Rightarrow> (string \<times> string list \<times> string list) list"
  and walk_subdirs :: "string \<Rightarrow> entry list \<Rightarrow> (string \<times> string list \<times> string list) list"
where
  "walk dirpath es = (dirpath, dirnames es, filenames es) # walk_subdirs dirpath es"
| "walk_subdirs dirpath [] = []"
| "walk_subdirs dirpath (File n # es) = walk_subdirs dirpath es"
| "walk_subdirs dirpath (Dir n sub # es) =
     walk (os_path_join dirpath n) sub @ walk_subdirs dirpath es"

section \<open>The interpreter and the libraries\<close>

text \<open>
  What the module takes from outside itself: the directory tree found at a path (\<open>None\<close>
  where there is no directory, and \<open>os.walk\<close> yields nothing), iris's \<open>load_cube\<close> and
  \<open>load\<close>, \<open>CubeList.extract\<close>, the text \<open>format\<close> prints for a constraint, and the
  attributes every instance has from \<open>object\<close> with what calling one with two arguments
  does.
\<close>

record ('c, 't) runtime =
  dir_at :: "string \<Rightarrow> entry list option"
  iris_load_cube :: "'c pyval \<Rightarrow> 'c pyval \<Rightarrow> exn + 'c"
  iris_load :: "'c pyval \<Rightarrow> 'c pyval \<Rightarrow> exn + 'c list"
  cubelist_extract :: "'t \<Rightarrow> 'c list \<Rightarrow> 'c list"
  format_constraint :: "'t \<Rightarrow> string"
  object_attr :: "string \<Rightarrow> bool"
  call_object_attr :: "string \<Rightarrow> 'c pyval \<Rightarrow> 'c pyval \<Rightarrow> exn + 'c pyval"

definition os_walk :: "('c, 't) runtime \<Rightarrow> string \<Rightarrow> (string \<times> string list \<times> string list) list" where
  "os_walk rt root = (case dir_at rt root of None \<Rightarrow> [] | Some es \<Rightarrow> walk root es)"

section \<open>class Load\<close>

record Load =
  "method" :: string

text \<open>\<open>Load(method)\<close>.\<close>

definition Load_init :: "string \<Rightarrow> Load" where
  "Load_init m = \<lparr>method = m\<rparr>"

text \<open>
  What \<open>getattr(self, name)\<close> finds: the instance attribute \<open>method\<close>, the five functions
  of the class, or an attribute of \<open>object\<close>.
\<close>

datatype attr =
  Attr_method string
  | Attr_init
  | Attr_repr
  | Attr_process
  | Attr_single_file
  | Attr_multi_file
  | Attr_object string

definition getattr :: "('c, 't) runtime \<Rightarrow> Load \<Rightarrow> string \<Rightarrow> attr option" where
  "getattr rt self name =
     (if name = ''method'' then Some (Attr_method (method self))
      else if name = ''__init__'' then Some Attr_init
      else if name = ''__repr__'' then Some Attr_repr
      else if name = ''process'' then Some Attr_process
      else if name = ''single_file'' then Some Attr_single_file
      else if name = ''multi_file'' then Some Attr_multi_file
      else if object_attr rt name then Some (Attr_object name)
      else None)"

definition single_file ::
  "('c, 't) runtime \<Rightarrow> 'c pyval \<Rightarrow> 'c pyval \<Rightarrow> (exn + 'c pyval) \<times> 'c event list" where
  "single_file rt filepath diagnostic =
     (case iris_load_cube rt filepath diagnostic of
        Inl e \<Rightarrow> (Inl e, [Loaded filepath diagnostic])
      | Inr cube \<Rightarrow> (Inr (PCube cube), [Loaded filepath diagnostic]))"

definition multi_file ::
  "('c, 't) runtime \<Rightarrow> 'c pyval \<Rightarrow> 'c pyval \<Rightarrow> (exn + 'c pyval) \<times> 'c event list" where
  "multi_file rt filepath diagnostic =
     (case iris_load rt filepath diagnostic of
        Inl e \<Rightarrow> (Inl e, [Loaded filepath diagnostic])
      | Inr cubes \<Rightarrow> (Inr (PCubeList cubes), [Loaded filepath diagnostic]))"

text \<open>
  \<open>function(filepath, diagnostic)\<close> for what \<open>getattr\<close> found. A string is not callable;
  \<open>__init__\<close> and \<open>__repr__\<close> are bound methods of fewer parameters; the bound
  \<open>process\<close> looks up the same tag again and calls itself with the same arguments, so the
  interpreter ends the call chain with its recursion error.
\<close>

definition call_attr ::
  "('c, 't) runtime \<Rightarrow> attr \<Rightarrow> 'c pyval \<Rightarrow> 'c pyval \<Rightarrow> (exn + 'c pyval) \<times> 'c event list" where
  "call_attr rt function filepath diagnostic =
     (case function of
        Attr_method s \<Rightarrow>
          (Inl (Exn TypeError (squote @ ''str'' @ squote @ '' object is not callable'')), [])
      | Attr_init \<Rightarrow>
          (Inl (Exn TypeError ''__init__() takes 2 positional arguments but 3 were given''), [])
      | Attr_repr \<Rightarrow>
          (Inl (Exn TypeError ''__repr__() takes 1 positional argument but 3 were given''), [])
      | Attr_process \<Rightarrow>
          (Inl (Exn RecursionError ''maximum recursion depth exceeded''), [])
      | Attr_single_file \<Rightarrow> single_file rt filepath diagnostic
      | Attr_multi_file \<Rightarrow> multi_file rt filepath diagnostic
      | Attr_object name \<Rightarrow> (call_object_attr rt name filepath diagnostic, []))"

text \<open>\<open>Load.process\<close>, lines 84 to 90. \<open>self.__class__.__name__\<close> is \<open>Load\<close>.\<close>

definition process ::
  "('c, 't) runtime \<Rightarrow> Load \<Rightarrow> 'c pyval \<Rightarrow> 'c pyval \<Rightarrow> (exn + 'c pyval) \<times> 'c event list" where
  "process rt self filepath diagnostic =
     (case getattr rt self (method self) of
        None \<Rightarrow>
          (Inl (Exn AttributeError
             (''Unknown method '' @ dquote @ method self @ dquote @ '' passed to '' @ ''Load'' @ ''.'')),
           [])
      | Some function \<Rightarrow> call_attr rt function filepath diagnostic)"

section \<open>\<open>get_additional_diagnostics\<close> and \<open>get_method_prerequisites\<close>\<close>

text \<open>The list comprehension of lines 162 to 165; \<open>in\<close> on strings is \<open>sublist\<close>.\<close>

definition files_to_read :: "('c, 't) runtime \<Rightarrow> string \<Rightarrow> string \<Rightarrow> string list" where
  "files_to_read rt diagnostic_name diagnostic_data_path =
     concat (map (\<lambda>(dirpath, dirs, files).
                    map (os_path_join dirpath) (filter (sublist diagnostic_name) files))
                 (os_walk rt diagnostic_data_path))"

text \<open>
  Lines 162 to 177. \<open>time_extract\<close> is \<open>None\<close> or a constraint. \<open>cubes.extract\<close> exists on
  a cube list only; \<open>not cubes\<close> is true of the empty list.
\<close>

definition get_additional_diagnostics ::
  "('c, 't) runtime \<Rightarrow> string \<Rightarrow> string \<Rightarrow> 't option \<Rightarrow> (exn + 'c pyval) \<times> 'c event list" where
  "get_additional_diagnostics rt diagnostic_name diagnostic_data_path time_extract =
     (let files = files_to_read rt diagnostic_name diagnostic_data_path;
          walked = [Walked diagnostic_data_path]
      in if files = [] then
           (Inl (Exn IOError (''No relevant data files found in '' @ diagnostic_data_path @ ''.'')),
            walked)
         else
           (case process rt (Load_init ''multi_file'') (PList (map PStr files)) PNone of
              (Inl e, evs) \<Rightarrow> (Inl e, walked @ evs)
            | (Inr cubes, evs) \<Rightarrow>
                (case time_extract of
                   None \<Rightarrow> (Inr cubes, walked @ evs)
                 | Some t \<Rightarrow>
                     (case cubes of
                        PCubeList cs \<Rightarrow>
                          (let cs' = cubelist_extract rt t cs
                           in if cs' = [] then
                                (Inl (Exn ValueError
                                   (''No diagnostics match '' @ format_constraint rt t)),
                                 walked @ evs)
                              else (Inr (PCubeList cs'), walked @ evs))
                      | _ \<Rightarrow>
                          (Inl (Exn AttributeError ''object has no attribute extract''),
                           walked @ evs)))))"

text \<open>The loop of lines 128 to 131: the first exception ends it.\<close>

fun collect_diagnostics ::
  "('c, 't) runtime \<Rightarrow> string \<Rightarrow> string list \<Rightarrow> (string \<rightharpoonup> 'c pyval) \<Rightarrow> 'c event list
     \<Rightarrow> (exn + (string \<rightharpoonup> 'c pyval)) \<times> 'c event list" where
  "collect_diagnostics rt diagnostic_data_path [] additional_diagnostics evs =
     (Inr additional_diagnostics, evs)"
| "collect_diagnostics rt diagnostic_data_path (item # items) additional_diagnostics evs =
     (case get_additional_diagnostics rt item diagnostic_data_path None of
        (Inl e, evs') \<Rightarrow> (Inl e, evs @ evs')
      | (Inr cubes, evs') \<Rightarrow>
          collect_diagnostics rt diagnostic_data_path items
            (additional_diagnostics(item \<mapsto> cubes)) (evs @ evs'))"

text \<open>Lines 120 to 133. The result is \<open>None\<close> or the dictionary.\<close>

definition get_method_prerequisites ::
  "('c, 't) runtime \<Rightarrow> string \<Rightarrow> string
     \<Rightarrow> (exn + (string \<rightharpoonup> 'c pyval) option) \<times> 'c event list" where
  "get_method_prerequisites rt method_name diagnostic_data_path =
     (if method_name = ''model_level_temperature_lapse_rate'' then
        (case collect_diagnostics rt diagnostic_data_path
                [''temperature_on_height_levels'', ''pressure_on_height_levels'',
                 ''surface_pressure'']
                Map.empty [] of
           (Inl e, evs) \<Rightarrow> (Inl e, evs)
         | (Inr additional_diagnostics, evs) \<Rightarrow> (Inr (Some additional_diagnostics), evs))
      else (Inr None, []))"

section \<open>\<open>data_from_dictionary\<close> and \<open>read_config\<close>\<close>

text \<open>Lines 203 to 210.\<close>

definition data_from_dictionary :: "'c pyval \<Rightarrow> string \<Rightarrow> exn + 'c pyval" where
  "data_from_dictionary dictionary_data key =
     (if \<not> isinstance_dict dictionary_data then
        Inl (Exn TypeError ''Invalid type sent to data_from_dictionary - Not a dictionary.'')
      else
        (case dictionary_data of
           PDict items \<Rightarrow>
             (case map_of items key of
                Some v \<Rightarrow> Inr v
              | None \<Rightarrow> Inl (Exn KeyError (''Data '' @ key @ '' not found in dictionary.'')))
         | _ \<Rightarrow>
             Inl (Exn TypeError ''Invalid type sent to data_from_dictionary - Not a dictionary.'')))"

text \<open>
  Lines 233 to 236. The files are a map from path to content; \<open>open\<close> raises \<open>IOError\<close>
  where there is none. \<open>json.load\<close> is the library's, and whatever it returns for the
  content is returned.
\<close>

definition read_config ::
  "(string \<rightharpoonup> string) \<Rightarrow> (string \<Rightarrow> exn + 'j) \<Rightarrow> string \<Rightarrow> (exn + 'j) \<times> 'c event list" where
  "read_config files json_load file_path =
     (case files file_path of
        None \<Rightarrow>
          (Inl (Exn IOError (''No such file or directory: '' @ file_path)), [Opened file_path])
      | Some content \<Rightarrow> (json_load content, [Opened file_path]))"

section \<open>The files of a subtree\<close>

text \<open>
  The files of a directory tree, said without the walk: \<open>in_subtree root es dirpath n\<close>
  when a file named \<open>n\<close> lies in the directory of path \<open>dirpath\<close>, which is the
  directory \<open>root\<close> holding \<open>es\<close> or one at any depth below it.
\<close>

inductive in_subtree :: "string \<Rightarrow> entry list \<Rightarrow> string \<Rightarrow> string \<Rightarrow> bool" where
  here: "File n \<in> set es \<Longrightarrow> in_subtree root es root n"
| below: "Dir dn sub \<in> set es \<Longrightarrow> in_subtree (os_path_join root dn) sub dirpath n
            \<Longrightarrow> in_subtree root es dirpath n"

definition file_under :: "('c, 't) runtime \<Rightarrow> string \<Rightarrow> string \<Rightarrow> string \<Rightarrow> bool" where
  "file_under rt root dirpath n =
     (case dir_at rt root of None \<Rightarrow> False | Some es \<Rightarrow> in_subtree root es dirpath n)"

text \<open>A file qualifies for a diagnostic when its name contains the diagnostic's.\<close>

definition qualifying :: "('c, 't) runtime \<Rightarrow> string \<Rightarrow> string \<Rightarrow> (string \<times> string) set" where
  "qualifying rt diagnostic_name root =
     {(dirpath, n). file_under rt root dirpath n \<and> sublist diagnostic_name n}"

section \<open>A data directory to run the functions on\<close>

text \<open>
  The directory of the specification's scenario, with one diagnostic a level down and a
  directory whose name, not a file's, contains a diagnostic name. A cube is named by the
  file it was read from; a time constraint keeps the cubes whose name contains it.
\<close>

definition scenario_tree :: "entry list" where
  "scenario_tree =
     [File ''foo_temperature_on_height_levels_20200101.nc'',
      Dir ''surface_pressure_notes'' [File ''readme.txt''],
      File ''foo_pressure_on_height_levels_20200101.nc'',
      Dir ''more'' [Dir ''deep'' [File ''foo_surface_pressure_20200101.nc'']],
      File ''unrelated.txt'']"

definition cubes_of_paths :: "string pyval \<Rightarrow> exn + string list" where
  "cubes_of_paths filepath =
     (case filepath of
        PList ps \<Rightarrow> Inr (concat (map (\<lambda>p. case p of PStr s \<Rightarrow> [s] | _ \<Rightarrow> []) ps))
      | PStr s \<Rightarrow> Inr [s]
      | _ \<Rightarrow> Inl (Exn (LibraryError ''iris'') ''cannot load''))"

definition scenario_runtime :: "(string, string) runtime" where
  "scenario_runtime =
     \<lparr>dir_at = (\<lambda>p. if p = ''/data'' then Some scenario_tree else None),
      iris_load_cube = (\<lambda>filepath diagnostic.
         case filepath of PStr s \<Rightarrow> Inr s | _ \<Rightarrow> Inl (Exn (LibraryError ''iris'') ''cannot load'')),
      iris_load = (\<lambda>filepath diagnostic. cubes_of_paths filepath),
      cubelist_extract = (\<lambda>t cs. filter (sublist t) cs),
      format_constraint = (\<lambda>t. t),
      object_attr = (\<lambda>name. name = ''__class__'' \<or> name = ''__setattr__''),
      call_object_attr = (\<lambda>name filepath diagnostic.
         if name = ''__setattr__'' then Inr PNone
         else Inl (Exn TypeError ''wrong number of arguments''))\<rparr>"

text \<open>The same directory read by a loader that finds no cube in the files.\<close>

definition hollow_runtime :: "(string, string) runtime" where
  "hollow_runtime = scenario_runtime\<lparr>iris_load := (\<lambda>filepath diagnostic. Inr [])\<rparr>"

text \<open>The scenario's directory without its pressure file.\<close>

definition missing_pressure_runtime :: "(string, string) runtime" where
  "missing_pressure_runtime =
     scenario_runtime\<lparr>dir_at := (\<lambda>p. if p = ''/data''
        then Some [File ''foo_temperature_on_height_levels_20200101.nc'',
                   Dir ''more'' [Dir ''deep'' [File ''foo_surface_pressure_20200101.nc'']],
                   File ''unrelated.txt'']
        else None)\<rparr>"

text \<open>
  A stand-in for the json library on three documents, to run \<open>read_config\<close> on: what
  \<open>json.load\<close> returns for each text.
\<close>

definition sample_json_load :: "string \<Rightarrow> exn + string pyval" where
  "sample_json_load content =
     (if content = ''{'' @ dquote @ ''site'' @ dquote @ '': 3}'' then Inr (PDict [(''site'', PInt 3)])
      else if content = ''[1, 2]'' then Inr (PList [PInt 1, PInt 2])
      else if content = ''null'' then Inr PNone
      else Inl (Exn ValueError ''No JSON object could be decoded''))"

section \<open>The walk visits exactly the files of the subtree\<close>

lemma filenames_set: "n \<in> set (filenames es) \<longleftrightarrow> File n \<in> set es"
  by (induction es rule: filenames.induct) auto

lemma walk_sound:
  "(dp, ds, fs) \<in> set (walk dirpath es) \<Longrightarrow> n \<in> set fs \<Longrightarrow> in_subtree dirpath es dp n"
  "(dp, ds, fs) \<in> set (walk_subdirs dirpath es) \<Longrightarrow> n \<in> set fs \<Longrightarrow>
     \<exists>dn sub. Dir dn sub \<in> set es \<and> in_subtree (os_path_join dirpath dn) sub dp n"
proof (induction dirpath es and dirpath es rule: walk_walk_subdirs.induct)
  case (1 dirpath es)
  then show ?case by (auto simp: filenames_set intro: in_subtree.intros)
next
  case (2 dirpath)
  then show ?case by simp
next
  case (3 dirpath n' es)
  then show ?case by auto
next
  case (4 dirpath n' sub es)
  then show ?case by auto
qed

lemma walk_subdirs_mono:
  "Dir dn sub \<in> set es \<Longrightarrow> set (walk (os_path_join root dn) sub) \<subseteq> set (walk_subdirs root es)"
proof (induction es)
  case Nil
  then show ?case by simp
next
  case (Cons e es)
  then show ?case by (cases e) auto
qed

lemma walk_complete:
  "in_subtree dirpath es dp n \<Longrightarrow> \<exists>ds fs. (dp, ds, fs) \<in> set (walk dirpath es) \<and> n \<in> set fs"
proof (induction rule: in_subtree.induct)
  case (here n es root)
  then have "(root, dirnames es, filenames es) \<in> set (walk root es)" "n \<in> set (filenames es)"
    by (simp_all add: filenames_set)
  then show ?case by blast
next
  case (below dn sub es root dirpath n)
  then obtain ds fs where "(dirpath, ds, fs) \<in> set (walk (os_path_join root dn) sub)" "n \<in> set fs"
    by blast
  with walk_subdirs_mono[OF below.hyps(1), of root]
  have "(dirpath, ds, fs) \<in> set (walk root es)" "n \<in> set fs" by auto
  then show ?case by blast
qed

lemma files_to_read_set:
  "set (files_to_read rt d root) = {os_path_join dp n | dp n. (dp, n) \<in> qualifying rt d root}"
proof (cases "dir_at rt root")
  case None
  then show ?thesis by (simp add: files_to_read_def os_walk_def qualifying_def file_under_def)
next
  case (Some es)
  have "in_subtree root es dp n \<longleftrightarrow> (\<exists>ds fs. (dp, ds, fs) \<in> set (walk root es) \<and> n \<in> set fs)" for dp n
    using walk_sound(1) walk_complete by blast
  with Some show ?thesis
    by (fastforce simp: files_to_read_def os_walk_def qualifying_def file_under_def simp del: walk.simps)
qed

lemma files_to_read_empty_iff:
  "files_to_read rt d root = [] \<longleftrightarrow> qualifying rt d root = {}"
proof -
  have "files_to_read rt d root = [] \<longleftrightarrow> set (files_to_read rt d root) = {}" by simp
  also have "\<dots> \<longleftrightarrow> qualifying rt d root = {}"
    unfolding files_to_read_set by auto
  finally show ?thesis .
qed

section \<open>The calls, case by case\<close>

lemma process_multi_file:
  "process rt (Load_init ''multi_file'') filepath diagnostic = multi_file rt filepath diagnostic"
  by (simp add: process_def Load_init_def getattr_def call_attr_def)

lemma process_single_file:
  "process rt (Load_init ''single_file'') filepath diagnostic = single_file rt filepath diagnostic"
  by (simp add: process_def Load_init_def getattr_def call_attr_def)

lemma process_unresolved_tag:
  "getattr rt (Load_init tag) tag = None \<Longrightarrow>
     process rt (Load_init tag) filepath diagnostic =
       (Inl (Exn AttributeError (''Unknown method '' @ dquote @ tag @ dquote @ '' passed to Load.'')), [])"
  by (simp add: process_def Load_init_def)

lemma gad_not_found:
  "files_to_read rt d root = [] \<Longrightarrow>
     get_additional_diagnostics rt d root time_extract =
       (Inl (Exn IOError (''No relevant data files found in '' @ root @ ''.'')), [Walked root])"
  by (simp add: get_additional_diagnostics_def)

lemma gad_load_failed:
  "files_to_read rt d root \<noteq> [] \<Longrightarrow>
   iris_load rt (PList (map PStr (files_to_read rt d root))) PNone = Inl e \<Longrightarrow>
     get_additional_diagnostics rt d root time_extract =
       (Inl e, [Walked root, Loaded (PList (map PStr (files_to_read rt d root))) PNone])"
  by (simp add: get_additional_diagnostics_def process_multi_file multi_file_def)

lemma gad_unfiltered:
  "files_to_read rt d root \<noteq> [] \<Longrightarrow>
   iris_load rt (PList (map PStr (files_to_read rt d root))) PNone = Inr cubes \<Longrightarrow>
     get_additional_diagnostics rt d root None =
       (Inr (PCubeList cubes), [Walked root, Loaded (PList (map PStr (files_to_read rt d root))) PNone])"
  by (simp add: get_additional_diagnostics_def process_multi_file multi_file_def)

lemma gad_filtered:
  "files_to_read rt d root \<noteq> [] \<Longrightarrow>
   iris_load rt (PList (map PStr (files_to_read rt d root))) PNone = Inr cubes \<Longrightarrow>
     get_additional_diagnostics rt d root (Some t) =
       (if cubelist_extract rt t cubes = [] then
          Inl (Exn ValueError (''No diagnostics match '' @ format_constraint rt t))
        else Inr (PCubeList (cubelist_extract rt t cubes)),
        [Walked root, Loaded (PList (map PStr (files_to_read rt d root))) PNone])"
  by (simp add: get_additional_diagnostics_def process_multi_file multi_file_def Let_def)

lemma scenario_files:
  "files_to_read scenario_runtime ''temperature_on_height_levels'' ''/data'' =
     [''/data/foo_temperature_on_height_levels_20200101.nc'']"
  "files_to_read scenario_runtime ''pressure_on_height_levels'' ''/data'' =
     [''/data/foo_pressure_on_height_levels_20200101.nc'']"
  "files_to_read scenario_runtime ''surface_pressure'' ''/data'' =
     [''/data/more/deep/foo_surface_pressure_20200101.nc'']"
  by code_simp+

lemma missing_pressure_files:
  "files_to_read missing_pressure_runtime ''pressure_on_height_levels'' ''/data'' = []"
  by code_simp

lemma missing_pressure_none_qualify:
  "qualifying missing_pressure_runtime ''pressure_on_height_levels'' ''/data'' = {}"
  using missing_pressure_files by (simp add: files_to_read_empty_iff)

lemma scenario_some_qualify:
  "qualifying scenario_runtime ''temperature_on_height_levels'' ''/data'' \<noteq> {}"
  "qualifying scenario_runtime ''pressure_on_height_levels'' ''/data'' \<noteq> {}"
  "qualifying scenario_runtime ''surface_pressure'' ''/data'' \<noteq> {}"
  using scenario_files by (simp_all flip: files_to_read_empty_iff)

lemma scenario_load:
  "iris_load scenario_runtime (PList (map PStr [''/data/more/deep/foo_surface_pressure_20200101.nc''])) PNone
     = Inr [''/data/more/deep/foo_surface_pressure_20200101.nc'']"
  by (simp add: scenario_runtime_def cubes_of_paths_def)

lemma scenario_loads: "\<exists>cs. iris_load scenario_runtime (PList ps) d = Inr cs"
  by (simp add: scenario_runtime_def cubes_of_paths_def)

text \<open>The loop, when every diagnostic is found: one key for each item, no other key touched.\<close>

lemma collect_diagnostics_all_found:
  assumes "\<forall>k \<in> set items. \<exists>v evs. get_additional_diagnostics rt k root None = (Inr v, evs)"
  shows "\<exists>m' evs'.
           collect_diagnostics rt root items m evs0 = (Inr m', evs')
           \<and> dom m' = dom m \<union> set items
           \<and> (\<forall>k \<in> set items. \<exists>v. m' k = Some v
                  \<and> fst (get_additional_diagnostics rt k root None) = Inr v)
           \<and> (\<forall>k. k \<notin> set items \<longrightarrow> m' k = m k)"
  using assms
proof (induction items arbitrary: m evs0)
  case Nil
  then show ?case by simp
next
  case (Cons item items)
  then obtain v e where g: "get_additional_diagnostics rt item root None = (Inr v, e)"
    by auto
  from Cons.prems have rest:
    "\<forall>k \<in> set items. \<exists>v evs. get_additional_diagnostics rt k root None = (Inr v, evs)"
    by simp
  from Cons.IH [OF rest, of "m(item \<mapsto> v)" "evs0 @ e"]
  obtain m' evs' where
    run: "collect_diagnostics rt root items (m(item \<mapsto> v)) (evs0 @ e) = (Inr m', evs')"
    and keys: "dom m' = dom (m(item \<mapsto> v)) \<union> set items"
    and vals: "\<forall>k \<in> set items. \<exists>v. m' k = Some v
                 \<and> fst (get_additional_diagnostics rt k root None) = Inr v"
    and others: "\<forall>k. k \<notin> set items \<longrightarrow> m' k = (m(item \<mapsto> v)) k"
    by blast
  have 1: "collect_diagnostics rt root (item # items) m evs0 = (Inr m', evs')"
    using g run by simp
  have 2: "dom m' = dom m \<union> set (item # items)"
    using keys by auto
  have 3: "\<exists>w. m' item = Some w \<and> fst (get_additional_diagnostics rt item root None) = Inr w"
  proof (cases "item \<in> set items")
    case True
    with vals show ?thesis by blast
  next
    case False
    with others have "m' item = Some v" by simp
    with g show ?thesis by simp
  qed
  have 4: "\<forall>k. k \<notin> set (item # items) \<longrightarrow> m' k = m k"
    using others by simp
  from 1 2 3 4 vals show ?case by simp
qed

text \<open>With a time constraint, a collection that is returned has a cube in it (lines 175 and 176).\<close>

lemma filtered_collection_nonempty:
  "get_additional_diagnostics rt d root (Some t) = (Inr (PCubeList cs), evs) \<Longrightarrow> cs \<noteq> []"
  by (auto simp: get_additional_diagnostics_def Let_def
           split: if_splits prod.splits sum.splits pyval.splits)

text \<open>
  A tag that \<open>getattr\<close> does not resolve raises \<open>AttributeError\<close> with a message
  that contains the tag and the class name.
\<close>

lemma process_unknown_method:
  assumes "getattr rt (Load_init tag) tag = None"
  shows "\<exists>msg. process rt (Load_init tag) filepath diagnostic = (Inl (Exn AttributeError msg), [])
           \<and> sublist tag msg \<and> sublist ''Load'' msg"
proof -
  let ?msg = "''Unknown method '' @ dquote @ tag @ dquote @ '' passed to Load.''"
  have "sublist tag ((''Unknown method '' @ dquote) @ tag @ (dquote @ '' passed to Load.''))"
    by (rule sublist_appendI)
  then have 1: "sublist tag ?msg" by simp
  have "sublist ''Load'' ((''Unknown method '' @ dquote @ tag @ dquote @ '' passed to '') @ ''Load'' @ ''.'')"
    by (rule sublist_appendI)
  then have 2: "sublist ''Load'' ?msg" by simp
  from process_unresolved_tag [OF assms] 1 2 show ?thesis by blast
qed

section \<open>The claims\<close>

text \<open>
  Claim C1, at a tag the code does not reject. The tags \<open>method\<close> and \<open>process\<close> are
  neither \<open>single_file\<close> nor \<open>multi_file\<close>, yet \<open>getattr\<close> resolves them, to the
  instance's own string and to the bound \<open>process\<close>; the call then ends in \<open>TypeError\<close>
  and in the interpreter's recursion error, not in the \<open>AttributeError\<close> of line 87. With
  an attribute of \<open>object\<close> that accepts two arguments, as \<open>__setattr__\<close> does, no
  exception is raised at all.
\<close>

theorem process_attribute_tags:
  "process rt (Load_init ''method'') filepath diagnostic
     = (Inl (Exn TypeError (squote @ ''str'' @ squote @ '' object is not callable'')), [])
   \<and> process rt (Load_init ''process'') filepath diagnostic
     = (Inl (Exn RecursionError ''maximum recursion depth exceeded''), [])
   \<and> process scenario_runtime (Load_init ''__setattr__'') (PStr ''x'') PNone = (Inr PNone, [])"
  by (simp add: process_def Load_init_def getattr_def call_attr_def scenario_runtime_def)

text \<open>
  Claim C2. For the method \<open>model_level_temperature_lapse_rate\<close>, when each of the three
  required diagnostics has a qualifying file under the root and iris loads the files found
  for it, \<open>get_method_prerequisites\<close> returns a dictionary whose keys are exactly
  \<open>temperature_on_height_levels\<close>, \<open>pressure_on_height_levels\<close> and
  \<open>surface_pressure\<close>, each mapped to what \<open>get_additional_diagnostics\<close> returns for
  that name with no time constraint.
\<close>

theorem prerequisites_exactly_three:
  assumes "\<forall>k \<in> {''temperature_on_height_levels'', ''pressure_on_height_levels'',
                    ''surface_pressure''}.
             qualifying rt k root \<noteq> {}
             \<and> (\<exists>cs. iris_load rt (PList (map PStr (files_to_read rt k root))) PNone = Inr cs)"
  shows "\<exists>m evs.
           get_method_prerequisites rt ''model_level_temperature_lapse_rate'' root
             = (Inr (Some m), evs)
           \<and> dom m = {''temperature_on_height_levels'', ''pressure_on_height_levels'',
                       ''surface_pressure''}
           \<and> (\<forall>k \<in> dom m. \<exists>v. m k = Some v
                  \<and> fst (get_additional_diagnostics rt k root None) = Inr v)"
proof -
  define items where
    "items = [''temperature_on_height_levels'', ''pressure_on_height_levels'', ''surface_pressure'']"
  have set_items: "set items = {''temperature_on_height_levels'', ''pressure_on_height_levels'',
                    ''surface_pressure''}"
    unfolding items_def by (simp only: list.set)
  have found: "\<forall>k \<in> set items. \<exists>v evs. get_additional_diagnostics rt k root None = (Inr v, evs)"
  proof
    fix k assume "k \<in> set items"
    with assms set_items obtain cs where
      "qualifying rt k root \<noteq> {}"
      "iris_load rt (PList (map PStr (files_to_read rt k root))) PNone = Inr cs"
      by blast
    then show "\<exists>v evs. get_additional_diagnostics rt k root None = (Inr v, evs)"
      using gad_unfiltered [of rt k root cs] by (simp add: files_to_read_empty_iff)
  qed
  from collect_diagnostics_all_found [OF found, of Map.empty "[]"]
  obtain m evs where
    run: "collect_diagnostics rt root items Map.empty [] = (Inr m, evs)"
    and keys: "dom m = set items"
    and vals: "\<forall>k \<in> set items. \<exists>v. m k = Some v
                 \<and> fst (get_additional_diagnostics rt k root None) = Inr v"
    by auto
  have "get_method_prerequisites rt ''model_level_temperature_lapse_rate'' root
          = (Inr (Some m), evs)"
    unfolding get_method_prerequisites_def using run [unfolded items_def]
    by (simp only: refl if_True prod.case sum.case)
  with keys vals set_items show ?thesis
    by (metis (no_types, lifting))
qed

theorem prerequisites_exactly_three_witness:
  "qualifying scenario_runtime ''temperature_on_height_levels'' ''/data'' \<noteq> {}
   \<and> qualifying scenario_runtime ''pressure_on_height_levels'' ''/data'' \<noteq> {}
   \<and> qualifying scenario_runtime ''surface_pressure'' ''/data'' \<noteq> {}
   \<and> (\<exists>m evs.
         get_method_prerequisites scenario_runtime ''model_level_temperature_lapse_rate'' ''/data''
           = (Inr (Some m), evs)
         \<and> dom m = {''temperature_on_height_levels'', ''pressure_on_height_levels'',
                     ''surface_pressure''}
         \<and> (\<forall>k \<in> dom m. \<exists>v. m k = Some v
                \<and> fst (get_additional_diagnostics scenario_runtime k ''/data'' None) = Inr v))"
proof -
  have "\<forall>k \<in> {''temperature_on_height_levels'', ''pressure_on_height_levels'',
                ''surface_pressure''}.
          qualifying scenario_runtime k ''/data'' \<noteq> {}
          \<and> (\<exists>cs. iris_load scenario_runtime
                      (PList (map PStr (files_to_read scenario_runtime k ''/data''))) PNone = Inr cs)"
    using scenario_some_qualify scenario_loads by blast
  from prerequisites_exactly_three [OF this] scenario_some_qualify
  show ?thesis by blast
qed

text \<open>
  Claim C3, at an input where the code returns an empty collection. In the scenario's
  directory a file qualifies for \<open>surface_pressure\<close>; when iris finds no cube in it and
  no time constraint is given, \<open>get_additional_diagnostics\<close> returns the empty cube list:
  the emptiness test of line 175 is made under a time constraint only.
\<close>

theorem unfiltered_collection_may_be_empty:
  "qualifying hollow_runtime ''surface_pressure'' ''/data'' \<noteq> {}
   \<and> fst (get_additional_diagnostics hollow_runtime ''surface_pressure'' ''/data'' None)
       = Inr (PCubeList [])"
proof -
  have files: "files_to_read hollow_runtime ''surface_pressure'' ''/data''
                 = [''/data/more/deep/foo_surface_pressure_20200101.nc'']"
    by code_simp
  then have ne: "files_to_read hollow_runtime ''surface_pressure'' ''/data'' \<noteq> []"
    by simp
  have "iris_load hollow_runtime
          (PList (map PStr (files_to_read hollow_runtime ''surface_pressure'' ''/data''))) PNone
        = Inr []"
    by (simp add: hollow_runtime_def)
  from gad_unfiltered [OF ne this] ne show ?thesis
    by (simp add: files_to_read_empty_iff)
qed

text \<open>
  Claim C4, as amended. When no file of the subtree under the root has the diagnostic name
  in its filename, \<open>get_additional_diagnostics\<close> raises \<open>IOError\<close> (the
  specification's NotFound), whatever the time constraint, after the walk and before any
  load. The message is \<open>No relevant data files found in <root>.\<close>: it names the root
  directory, and it is built from the root directory alone.
\<close>

theorem not_found_names_root_only:
  "qualifying rt diagnostic_name root = {} \<Longrightarrow>
     get_additional_diagnostics rt diagnostic_name root time_extract =
       (Inl (Exn IOError (''No relevant data files found in '' @ root @ ''.'')), [Walked root])
     \<and> sublist root (''No relevant data files found in '' @ root @ ''.'')"
proof -
  assume "qualifying rt diagnostic_name root = {}"
  then have "files_to_read rt diagnostic_name root = []"
    by (simp add: files_to_read_empty_iff)
  moreover have "sublist root (''No relevant data files found in '' @ root @ ''.'')"
    by (rule sublist_appendI)
  ultimately show ?thesis
    using gad_not_found [of rt diagnostic_name root time_extract] by blast
qed

theorem not_found_names_root_only_witness:
  "qualifying missing_pressure_runtime ''pressure_on_height_levels'' ''/data'' = {}
   \<and> get_additional_diagnostics missing_pressure_runtime ''pressure_on_height_levels'' ''/data'' None =
       (Inl (Exn IOError ''No relevant data files found in /data.''), [Walked ''/data''])
   \<and> sublist ''/data'' ''No relevant data files found in /data.''"
  using not_found_names_root_only
          [OF missing_pressure_none_qualify, of None]
        missing_pressure_none_qualify
  by simp

text \<open>
  Claim C4 as stated fails: in the scenario's directory without its pressure file, the
  error for \<open>pressure_on_height_levels\<close> is raised with a message in which that name
  does not occur.
\<close>

theorem not_found_omits_diagnostic:
  "qualifying missing_pressure_runtime ''pressure_on_height_levels'' ''/data'' = {}
   \<and> fst (get_additional_diagnostics missing_pressure_runtime ''pressure_on_height_levels'' ''/data'' None) =
       Inl (Exn IOError ''No relevant data files found in /data.'')
   \<and> \<not> sublist ''pressure_on_height_levels'' ''No relevant data files found in /data.''"
proof -
  have "\<not> sublist ''pressure_on_height_levels'' ''No relevant data files found in /data.''"
    by code_simp
  moreover have "fst (get_additional_diagnostics missing_pressure_runtime
                        ''pressure_on_height_levels'' ''/data'' None) =
                   Inl (Exn IOError ''No relevant data files found in /data.'')"
    using gad_not_found [OF missing_pressure_files, of None] by simp
  ultimately show ?thesis
    using missing_pressure_none_qualify by blast
qed

text \<open>
  Claim C5. When at least one file qualifies and iris loads the files found, then with no
  time constraint \<open>get_additional_diagnostics\<close> returns the loaded collection as it is;
  with a time constraint it applies \<open>extract\<close> to the loaded collection, raises
  \<open>ValueError\<close> (NoMatch) with a message that contains the constraint when nothing is
  left, and returns the extracted collection otherwise. In each case the walk comes first
  and the one load second.
\<close>

theorem time_filter_after_load:
  assumes "qualifying rt diagnostic_name root \<noteq> {}"
    and "iris_load rt (PList (map PStr (files_to_read rt diagnostic_name root))) PNone = Inr cubes"
  shows "get_additional_diagnostics rt diagnostic_name root None =
           (Inr (PCubeList cubes),
            [Walked root, Loaded (PList (map PStr (files_to_read rt diagnostic_name root))) PNone])
         \<and> get_additional_diagnostics rt diagnostic_name root (Some t) =
           (if cubelist_extract rt t cubes = [] then
              Inl (Exn ValueError (''No diagnostics match '' @ format_constraint rt t))
            else Inr (PCubeList (cubelist_extract rt t cubes)),
            [Walked root, Loaded (PList (map PStr (files_to_read rt diagnostic_name root))) PNone])
         \<and> sublist (format_constraint rt t) (''No diagnostics match '' @ format_constraint rt t)"
proof -
  from assms(1) have files: "files_to_read rt diagnostic_name root \<noteq> []"
    by (simp add: files_to_read_empty_iff)
  have "sublist (format_constraint rt t) (''No diagnostics match '' @ format_constraint rt t)"
    by (rule sublist_append_leftI)
  with gad_unfiltered [OF files assms(2)] gad_filtered [OF files assms(2), of t]
  show ?thesis by blast
qed

theorem time_filter_after_load_witness:
  "qualifying scenario_runtime ''surface_pressure'' ''/data'' \<noteq> {}
   \<and> get_additional_diagnostics scenario_runtime ''surface_pressure'' ''/data'' None =
       (Inr (PCubeList [''/data/more/deep/foo_surface_pressure_20200101.nc'']),
        [Walked ''/data'',
         Loaded (PList [PStr ''/data/more/deep/foo_surface_pressure_20200101.nc'']) PNone])
   \<and> get_additional_diagnostics scenario_runtime ''surface_pressure'' ''/data'' (Some ''20210101'') =
       (Inl (Exn ValueError ''No diagnostics match 20210101''),
        [Walked ''/data'',
         Loaded (PList [PStr ''/data/more/deep/foo_surface_pressure_20200101.nc'']) PNone])
   \<and> get_additional_diagnostics scenario_runtime ''surface_pressure'' ''/data'' (Some ''20200101'') =
       (Inr (PCubeList [''/data/more/deep/foo_surface_pressure_20200101.nc'']),
        [Walked ''/data'',
         Loaded (PList [PStr ''/data/more/deep/foo_surface_pressure_20200101.nc'']) PNone])"
proof -
  have load: "iris_load scenario_runtime
                (PList (map PStr (files_to_read scenario_runtime ''surface_pressure'' ''/data''))) PNone
              = Inr [''/data/more/deep/foo_surface_pressure_20200101.nc'']"
    using scenario_load by (simp add: scenario_files(3))
  have no: "cubelist_extract scenario_runtime ''20210101''
              [''/data/more/deep/foo_surface_pressure_20200101.nc''] = []"
    by code_simp
  have yes: "cubelist_extract scenario_runtime ''20200101''
              [''/data/more/deep/foo_surface_pressure_20200101.nc'']
             = [''/data/more/deep/foo_surface_pressure_20200101.nc'']"
    by code_simp
  have fmt: "format_constraint scenario_runtime t = t" for t
    by (simp add: scenario_runtime_def)
  show ?thesis
    using time_filter_after_load [OF scenario_some_qualify(3) load, of "''20210101''"]
          time_filter_after_load [OF scenario_some_qualify(3) load, of "''20200101''"]
          scenario_some_qualify(3)
    by (simp add: scenario_files(3) no yes fmt)
qed

text \<open>
  Claim C6. The paths \<open>get_additional_diagnostics\<close> selects for loading are exactly the
  paths of the files, at any depth under the root, whose filename contains the diagnostic
  name as a substring. The test is on the filename alone, character by character, so it is
  case sensitive and a directory's name does not count. In this file system an entry is a
  file or a directory.
\<close>

theorem files_to_read_selects_exactly:
  "set (files_to_read rt diagnostic_name root) =
     {os_path_join dirpath n | dirpath n.
        file_under rt root dirpath n \<and> sublist diagnostic_name n}"
  using files_to_read_set [of rt diagnostic_name root]
  by (simp add: qualifying_def)

theorem files_to_read_selects_exactly_witness:
  "set (files_to_read scenario_runtime ''surface_pressure'' ''/data'') =
     {os_path_join dirpath n | dirpath n.
        file_under scenario_runtime ''/data'' dirpath n \<and> sublist ''surface_pressure'' n}
   \<and> files_to_read scenario_runtime ''surface_pressure'' ''/data'' =
       [''/data/more/deep/foo_surface_pressure_20200101.nc'']"
  using files_to_read_selects_exactly [of scenario_runtime "''surface_pressure''" "''/data''"]
        scenario_files(3)
  by simp

text \<open>
  Claim C7. For every method other than \<open>model_level_temperature_lapse_rate\<close>, the
  empty string included, \<open>get_method_prerequisites\<close> returns \<open>None\<close>: no exception,
  and no event, so neither a walk nor a load took place.
\<close>

theorem no_prerequisites_for_other_methods:
  "method_name \<noteq> ''model_level_temperature_lapse_rate'' \<Longrightarrow>
     get_method_prerequisites rt method_name diagnostic_data_path = (Inr None, [])"
  by (simp add: get_method_prerequisites_def)

theorem no_prerequisites_for_other_methods_witness:
  "get_method_prerequisites scenario_runtime '''' ''/data'' = (Inr None, [])
   \<and> get_method_prerequisites scenario_runtime ''nearest_neighbour'' ''/nowhere'' = (Inr None, [])"
  using no_prerequisites_for_other_methods [of "''''" scenario_runtime "''/data''"]
        no_prerequisites_for_other_methods [of "''nearest_neighbour''" scenario_runtime "''/nowhere''"]
  by simp

text \<open>
  Claim C8. \<open>data_from_dictionary\<close> raises \<open>TypeError\<close> (InvalidDictionary) for
  every value that is not a dictionary, whatever the key; for a dictionary without the key
  it raises \<open>KeyError\<close> (MissingKey) with a message that contains the key; for a
  dictionary with the key it returns the value stored under it, itself.
\<close>

theorem data_from_dictionary_contract:
  "(\<not> isinstance_dict v \<longrightarrow>
      data_from_dictionary v key =
        Inl (Exn TypeError ''Invalid type sent to data_from_dictionary - Not a dictionary.''))
   \<and> (map_of items key = None \<longrightarrow>
      data_from_dictionary (PDict items) key =
        Inl (Exn KeyError (''Data '' @ key @ '' not found in dictionary.''))
      \<and> sublist key (''Data '' @ key @ '' not found in dictionary.''))
   \<and> (map_of items key = Some stored \<longrightarrow>
      data_from_dictionary (PDict items) key = Inr stored)"
proof -
  have "sublist key (''Data '' @ key @ '' not found in dictionary.'')"
    by (rule sublist_appendI)
  then show ?thesis
    by (simp add: data_from_dictionary_def)
qed

theorem data_from_dictionary_contract_witness:
  "data_from_dictionary (PList [PStr ''orography'', PCube (1::nat)]) ''orography'' =
      Inl (Exn TypeError ''Invalid type sent to data_from_dictionary - Not a dictionary.'')
   \<and> data_from_dictionary (PDict [(''land_mask'', PCube (1::nat))]) ''orography'' =
      Inl (Exn KeyError ''Data orography not found in dictionary.'')
   \<and> sublist ''orography'' ''Data orography not found in dictionary.''
   \<and> data_from_dictionary (PDict [(''land_mask'', PCube 1), (''orography'', PCube (2::nat))])
        ''orography'' = Inr (PCube 2)"
  using data_from_dictionary_contract
          [where v = "PList [PStr ''orography'', PCube (1::nat)]" and key = "''orography''"
             and items = "[(''land_mask'', PCube (1::nat))]"]
        data_from_dictionary_contract
          [where v = "PNone :: nat pyval" and key = "''orography''"
             and items = "[(''land_mask'', PCube 1), (''orography'', PCube (2::nat))]"
             and stored = "PCube 2"]
  by simp

text \<open>
  Claim C10. Whatever value \<open>json.load\<close> parses from the file's content, a list, a
  string, a number, a boolean or \<open>None\<close> as much as a dictionary, \<open>read_config\<close>
  returns it as it is; nothing checks that it is a dictionary.
\<close>

theorem read_config_returns_parsed_value:
  "files file_path = Some content \<Longrightarrow> json_load content = Inr v \<Longrightarrow>
     read_config files json_load file_path = (Inr v, [Opened file_path] :: 'c event list)"
  by (simp add: read_config_def)

theorem read_config_returns_parsed_value_witness:
  "read_config [''conf.json'' \<mapsto> ''[1, 2]''] sample_json_load ''conf.json''
     = (Inr (PList [PInt 1, PInt 2]), [Opened ''conf.json''] :: nat event list)
   \<and> \<not> isinstance_dict (PList [PInt 1, PInt 2] :: string pyval)
   \<and> read_config [''conf.json'' \<mapsto> ''null''] sample_json_load ''conf.json''
     = (Inr PNone, [Opened ''conf.json''] :: nat event list)"
  using read_config_returns_parsed_value
          [of "[''conf.json'' \<mapsto> ''[1, 2]'']" "''conf.json''" "''[1, 2]''" sample_json_load
              "PList [PInt 1, PInt 2]", where ?'c = nat]
        read_config_returns_parsed_value
          [of "[''conf.json'' \<mapsto> ''null'']" "''conf.json''" "''null''" sample_json_load
              "PNone", where ?'c = nat]
  by (simp add: sample_json_load_def dquote_def)

end
